theory Spec2Isabelle
  imports Complex_Main "HOL-Library.Word"
begin

section \<open>The GGUF request processor (gguf\_processor.cpp)\<close>

text \<open>
  A shallow embedding of \<^verbatim>\<open>src/main/cpp/gguf_processor.cpp\<close>: the class
  \<^verbatim>\<open>GGUFProcessor\<close>, the exported C functions around the global processor and the
  interactive loop of \<^verbatim>\<open>main\<close>.

  Conventions of the embedding.
  \<^item> The members \<^verbatim>\<open>model_\<close>, \<^verbatim>\<open>ctx_\<close>, ... of the class lose their trailing underscore
    (such a name is not a constant name here): \<open>model\<close>, \<open>ctx\<close>, ...
  \<^item> A nullable pointer is an \<open>option\<close>; \<^verbatim>\<open>nullptr\<close> is \<open>None\<close>.
  \<^item> The \<^verbatim>\<open>int\<close> values of the class (loop indices, token ids, \<^verbatim>\<open>n_predict\<close>) are
    \<open>int\<close>: no operation of the class on them can leave the 32-bit range. The
    request counter of \<^verbatim>\<open>main\<close>, which is incremented without bound, is a \<open>32 word\<close>.
    The two \<^verbatim>\<open>std::atomic<long long>\<close> counters are \<open>64 word\<close>, whose addition wraps
    as the atomic operations do.
  \<^item> \<^verbatim>\<open>float\<close> logits and the \<^verbatim>\<open>double\<close> moving average are read as the real numbers
    they denote; on finite values the comparison \<^verbatim>\<open>>\<close> of the code is the order of
    the reals. Rounding and NaN are outside the model.
  \<^item> A thrown \<^verbatim>\<open>std::exception\<close> is a value \<open>Inl e\<close> of a sum, also when nothing
    catches it and it leaves \<^verbatim>\<open>processRequest\<close>.
  \<^item> The text written to \<^verbatim>\<open>std::cout\<close> and \<^verbatim>\<open>std::cerr\<close> is not modelled.
\<close>

subsection \<open>JSON documents\<close>

text \<open>
  The responses are built as \<^verbatim>\<open>nlohmann::json\<close> objects and returned as their
  \<^verbatim>\<open>dump()\<close>. A serialised document is represented by the object it encodes: a finite
  map from keys to values, so that a key the code never sets is absent (\<open>None\<close>).
  Serialising can fail; that is the subject of the next but one subsection.
\<close>

datatype json = JBool bool | JInt int | JString string

type_synonym json_object = "string \<rightharpoonup> json"

fun is_boolean :: "json option \<Rightarrow> bool" where
  "is_boolean (Some (JBool b)) = True"
| "is_boolean v = False"

fun is_number_integer :: "json option \<Rightarrow> bool" where
  "is_number_integer (Some (JInt n)) = True"
| "is_number_integer v = False"

fun is_string :: "json option \<Rightarrow> bool" where
  "is_string (Some (JString s)) = True"
| "is_string v = False"

subsection \<open>Exceptions\<close>

text \<open>
  The exceptions of \<^verbatim>\<open>processRequest\<close>: the \<^verbatim>\<open>std::runtime_error\<close> thrown by
  \<^verbatim>\<open>generate\<close>; the \<^verbatim>\<open>std::length_error\<close> that \<^verbatim>\<open>std::vector::resize\<close> throws in
  \<^verbatim>\<open>tokenize\<close> when the backend reports a negative token count (converted to
  \<^verbatim>\<open>size_t\<close> it exceeds \<^verbatim>\<open>max_size()\<close>), with the message of libstdc++; and the
  \<^verbatim>\<open>nlohmann::json::type_error\<close> that \<^verbatim>\<open>dump()\<close> throws, which carries its message.
\<close>

datatype exception = runtime_error string | length_error | type_error string

fun what :: "exception \<Rightarrow> string" where
  "what (runtime_error msg) = msg"
| "what length_error = ''vector::_M_default_append''"
| "what (type_error msg) = msg"

subsection \<open>Serialising a JSON object\<close>

text \<open>\<^verbatim>\<open>std::to_string\<close> on an unsigned and on a signed integer: the decimal digits.\<close>

fun string_of_nat :: "nat \<Rightarrow> string" where
  "string_of_nat n =
     (if n < 10 then [''0123456789'' ! n]
      else string_of_nat (n div 10) @ [''0123456789'' ! (n mod 10)])"

definition to_string :: "int \<Rightarrow> string" where
  "to_string i = (if i < 0 then CHR ''-'' # string_of_nat (nat (- i)) else string_of_nat (nat i))"

text \<open>
  Modelled from the library: \<^verbatim>\<open>nlohmann/json.hpp\<close> is not part of the repository.
  \<^verbatim>\<open>dump()\<close>, called with its default (strict) error handler, runs every key and every
  string value through a UTF-8 decoder and throws \<^verbatim>\<open>type_error\<close> 316 at the first byte
  that cannot continue a well-formed UTF-8 sequence, or at the end of a string that
  stops inside a sequence.

  The decoder is a state machine over the bytes: \<open>Accept\<close> between characters,
  \<open>Expect n lo hi\<close> when \<open>n\<close> more bytes of the current character are due and the
  next one must lie in \<open>lo .. hi\<close> (the table of well-formed byte sequences of the
  Unicode standard: no overlong forms, no surrogates, nothing above U+10FFFF).
\<close>

datatype utf8_state = Accept | Expect nat nat nat | Reject

definition utf8_lead :: "nat \<Rightarrow> utf8_state" where
  "utf8_lead b =
     (if b < 0x80 then Accept
      else if 0xC2 \<le> b \<and> b \<le> 0xDF then Expect 1 0x80 0xBF
      else if b = 0xE0 then Expect 2 0xA0 0xBF
      else if b = 0xED then Expect 2 0x80 0x9F
      else if 0xE1 \<le> b \<and> b \<le> 0xEF then Expect 2 0x80 0xBF
      else if b = 0xF0 then Expect 3 0x90 0xBF
      else if 0xF1 \<le> b \<and> b \<le> 0xF3 then Expect 3 0x80 0xBF
      else if b = 0xF4 then Expect 3 0x80 0x8F
      else Reject)"

fun utf8_step :: "utf8_state \<Rightarrow> nat \<Rightarrow> utf8_state" where
  "utf8_step Accept b = utf8_lead b"
| "utf8_step (Expect n lo hi) b =
     (if lo \<le> b \<and> b \<le> hi then (if n = 1 then Accept else Expect (n - 1) 0x80 0xBF)
      else Reject)"
| "utf8_step Reject b = Reject"

text \<open>A byte as two upper-case hexadecimal digits, as the messages print it.\<close>

definition hex_bytes :: "nat \<Rightarrow> string" where
  "hex_bytes b = [''0123456789ABCDEF'' ! (b div 16 mod 16), ''0123456789ABCDEF'' ! (b mod 16)]"

text \<open>
  The scan of a string from decoder state \<open>st\<close>, at byte index \<open>i\<close>, \<open>prev\<close> being the
  byte before: \<open>None\<close> when the string is accepted, and the message of the exception
  otherwise.
\<close>

fun utf8_scan :: "utf8_state \<Rightarrow> nat \<Rightarrow> nat \<Rightarrow> string \<Rightarrow> string option" where
  "utf8_scan st i prev [] =
     (if st = Accept then None
      else Some (''[json.exception.type_error.316] incomplete UTF-8 string; last byte: 0x''
                   @ hex_bytes prev))"
| "utf8_scan st i prev (c # cs) =
     (if utf8_step st (of_char c) = Reject
      then Some (''[json.exception.type_error.316] invalid UTF-8 byte at index ''
                   @ string_of_nat i @ '': 0x'' @ hex_bytes (of_char c))
      else utf8_scan (utf8_step st (of_char c)) (i + 1) (of_char c) cs)"

definition utf8_fault :: "string \<Rightarrow> string option" where
  "utf8_fault s = utf8_scan Accept 0 0 s"

definition valid_utf8 :: "string \<Rightarrow> bool" where
  "valid_utf8 s = (utf8_fault s = None)"

text \<open>A string of 7-bit bytes; such a string is valid UTF-8.\<close>

definition ascii :: "string \<Rightarrow> bool" where
  "ascii s = (\<forall>c \<in> set s. (of_char c :: nat) < 128)"

text \<open>
  An object under construction is the list of its members in the order in which
  \<^verbatim>\<open>dump()\<close> visits them: the object is a \<^verbatim>\<open>std::map\<close>, so that is the order of the keys,
  not the order of the assignments. \<open>dump\<close> returns the document, or the exception
  of the first key or string value that is not valid UTF-8.
\<close>

fun dump_fault :: "(string \<times> json) list \<Rightarrow> string option" where
  "dump_fault [] = None"
| "dump_fault ((k, v) # members) =
     (case utf8_fault k of
        Some msg \<Rightarrow> Some msg
      | None \<Rightarrow>
          (case v of
             JString s \<Rightarrow>
               (case utf8_fault s of Some msg \<Rightarrow> Some msg | None \<Rightarrow> dump_fault members)
           | JBool b \<Rightarrow> dump_fault members
           | JInt n \<Rightarrow> dump_fault members))"

definition dump :: "(string \<times> json) list \<Rightarrow> exception + json_object" where
  "dump members =
     (case dump_fault members of
        Some msg \<Rightarrow> Inl (type_error msg)
      | None \<Rightarrow> Inr (map_of members))"

subsection \<open>The llama.cpp backend\<close>

text \<open>
  The functions of \<^verbatim>\<open>llama.h\<close> are external. They are parameters of the model: a
  record of functions over a type \<open>'m\<close> of loaded models and a type \<open>'c\<close> of context
  states. \<^verbatim>\<open>llama_eval\<close> changes the context, so it returns the new state beside its
  return code. \<^verbatim>\<open>llama_get_logits\<close> returns a pointer, read by index.
  \<^verbatim>\<open>llama_tokenize\<close> and \<^verbatim>\<open>llama_token_to_piece\<close> write into a buffer of the caller:
  they return their result code and what they wrote.
\<close>

record ('m, 'c) llama =
  llama_load_model_from_file :: "string \<Rightarrow> int \<Rightarrow> bool \<Rightarrow> bool \<Rightarrow> 'm option"
  llama_new_context_with_model :: "'m \<Rightarrow> int \<Rightarrow> int \<Rightarrow> int \<Rightarrow> 'c option"
  llama_tokenize :: "'m \<Rightarrow> string \<Rightarrow> nat \<Rightarrow> bool \<Rightarrow> bool \<Rightarrow> int \<times> int list"
  llama_eval :: "'c \<Rightarrow> int list \<Rightarrow> int \<Rightarrow> int \<Rightarrow> int \<Rightarrow> int \<times> 'c"
  llama_get_logits :: "'c \<Rightarrow> int \<Rightarrow> real"
  llama_n_vocab :: "'m \<Rightarrow> int"
  llama_token_eos :: "'m \<Rightarrow> int"
  llama_token_to_piece :: "'m \<Rightarrow> int \<Rightarrow> nat \<Rightarrow> int \<times> string"

text \<open>
  A \<^verbatim>\<open>llama_context\<close> is the backend's state together with the number of
  \<^verbatim>\<open>llama_eval\<close> calls made on it so far. The counter is an observer of the model only:
  no function below reads it.
\<close>

record 'c llama_context =
  backend_state :: 'c
  n_eval_calls :: nat

definition eval_call ::
  "('m, 'c) llama \<Rightarrow> 'c llama_context \<Rightarrow> int list \<Rightarrow> int \<Rightarrow> int \<Rightarrow> int \<Rightarrow> int \<times> 'c llama_context" where
  "eval_call be c tokens n_tokens n_past n_threads =
     (case llama_eval be (backend_state c) tokens n_tokens n_past n_threads of
        (rc, s') \<Rightarrow> (rc, \<lparr>backend_state = s', n_eval_calls = Suc (n_eval_calls c)\<rparr>))"

text \<open>The conversion of a \<^verbatim>\<open>size_t\<close> to the \<^verbatim>\<open>int\<close> parameter of \<^verbatim>\<open>llama_eval\<close>.\<close>

definition size_to_int :: "nat \<Rightarrow> int" where
  "size_to_int n = sint (word_of_nat n :: 32 word)"

subsection \<open>The processor\<close>

record Config =
  n_threads :: int
  n_ctx :: int
  n_batch :: int
  n_gpu_layers :: int
  n_predict :: int
  temperature :: real
  top_p :: real
  top_k :: int
  repeat_penalty :: real
  use_mmap :: bool
  use_mlock :: bool

definition default_Config :: Config where
  "default_Config =
     \<lparr>n_threads = 4, n_ctx = 4096, n_batch = 512, n_gpu_layers = 35, n_predict = 256,
      temperature = 8 / 10, top_p = 9 / 10, top_k = 40, repeat_penalty = 11 / 10,
      use_mmap = True, use_mlock = False\<rparr>"

record ('m, 'c) GGUFProcessor =
  model :: "'m option"
  ctx :: "'c llama_context option"
  model_path :: string
  model_hash :: string
  total_tokens_processed :: "64 word"
  total_requests_processed :: "64 word"
  average_processing_time :: real
  config :: Config

text \<open>The default constructor: the member initialisers of the class.\<close>

definition new_GGUFProcessor :: "('m, 'c) GGUFProcessor" where
  "new_GGUFProcessor =
     \<lparr>model = None, ctx = None, model_path = [], model_hash = [],
      total_tokens_processed = 0, total_requests_processed = 0,
      average_processing_time = 0, config = default_Config\<rparr>"

definition isModelLoaded :: "('m, 'c) GGUFProcessor \<Rightarrow> bool" where
  "isModelLoaded p = (model p \<noteq> None \<and> ctx p \<noteq> None)"

definition initialize ::
  "('m, 'c) llama \<Rightarrow> ('m, 'c) GGUFProcessor \<Rightarrow> string \<Rightarrow> bool \<times> ('m, 'c) GGUFProcessor" where
  "initialize be p path =
     (let p1 = p\<lparr>model_path := path,
                 model_hash := ''QmXT2xkFnG7FP7NTfmDfDFcQLSfCJ3xfPnjCg76gFnq1Hr''\<rparr>;
          cfg = config p1;
          p2 = p1\<lparr>model := llama_load_model_from_file be path
                     (n_gpu_layers cfg) (use_mmap cfg) (use_mlock cfg)\<rparr>
      in case model p2 of
           None \<Rightarrow> (False, p2)
         | Some m \<Rightarrow>
             (case llama_new_context_with_model be m (n_ctx cfg) (n_batch cfg) (n_threads cfg) of
                None \<Rightarrow> (False, p2\<lparr>ctx := None, model := None\<rparr>)
              | Some s \<Rightarrow> (True, p2\<lparr>ctx := Some \<lparr>backend_state = s, n_eval_calls = 0\<rparr>\<rparr>)))"

subsection \<open>Tokenising, sampling, generating, detokenising\<close>

text \<open>
  \<^verbatim>\<open>tokenize\<close>: a vector of \<^verbatim>\<open>text.size() + 4\<close> zeros is handed to the backend, which
  overwrites a prefix of it and returns a count; the vector is then resized to the
  count. A negative count makes \<^verbatim>\<open>resize\<close> throw.
\<close>

definition vector_resize :: "int list \<Rightarrow> nat \<Rightarrow> int list" where
  "vector_resize v n = take n v @ replicate (n - length v) 0"

definition tokenize :: "('m, 'c) llama \<Rightarrow> 'm \<Rightarrow> string \<Rightarrow> exception + int list" where
  "tokenize be m text =
     (let cap = length text + 4 in
      case llama_tokenize be m text cap True False of
        (n_tokens, written) \<Rightarrow>
          (let tokens = take cap written @ replicate (cap - length written) 0
           in if n_tokens < 0 then Inl length_error
              else Inr (vector_resize tokens (nat n_tokens))))"

text \<open>
  \<^verbatim>\<open>sample_token\<close>: the loop over \<^verbatim>\<open>i = 1 .. n_vocab - 1\<close>, then the function. The
  logits are read through the pointer that the backend returns, so they are a function
  of the index; \<^verbatim>\<open>logits[0]\<close> is read whatever \<^verbatim>\<open>n_vocab\<close> is.
\<close>

function sample_token_loop :: "(int \<Rightarrow> real) \<Rightarrow> int \<Rightarrow> int \<Rightarrow> int \<Rightarrow> real \<Rightarrow> int" where
  "sample_token_loop logits n_vocab i best_token best_logit =
     (if i < n_vocab then
        (if logits i > best_logit
         then sample_token_loop logits n_vocab (i + 1) i (logits i)
         else sample_token_loop logits n_vocab (i + 1) best_token best_logit)
      else best_token)"
  by pat_completeness auto
termination
  by (relation "measure (\<lambda>(logits, n_vocab, i, best_token, best_logit). nat (n_vocab - i))") auto

definition sample_token :: "('m, 'c) llama \<Rightarrow> 'm \<Rightarrow> 'c llama_context \<Rightarrow> int" where
  "sample_token be m c =
     (let logits = llama_get_logits be (backend_state c);
          n_vocab = llama_n_vocab be m
      in sample_token_loop logits n_vocab 1 0 (logits 0))"

text \<open>
  \<^verbatim>\<open>generate\<close>. It runs past the guard of \<^verbatim>\<open>processRequest\<close> only, so it takes the
  model and the context the two pointers point to. \<open>n_prompt\<close> is
  \<^verbatim>\<open>prompt_tokens.size()\<close>, \<open>i\<close> the loop index. A \<^verbatim>\<open>throw\<close> leaves the function with the
  exception and the context as the calls made so far have left it.
\<close>

function generate_loop ::
  "('m, 'c) llama \<Rightarrow> 'm \<Rightarrow> Config \<Rightarrow> nat \<Rightarrow> int \<Rightarrow> int list \<Rightarrow> 'c llama_context
     \<Rightarrow> (exception + int list) \<times> 'c llama_context" where
  "generate_loop be m cfg n_prompt i response_tokens c =
     (if i < n_predict cfg then
        (let token = sample_token be m c in
         if token = llama_token_eos be m then (Inr response_tokens, c)
         else
           (case eval_call be c [token] 1
                   (size_to_int (n_prompt + length (response_tokens @ [token]))) (n_threads cfg) of
              (rc, c') \<Rightarrow>
                if rc \<noteq> 0 then (Inl (runtime_error ''Failed to evaluate token''), c')
                else generate_loop be m cfg n_prompt (i + 1) (response_tokens @ [token]) c'))
      else (Inr response_tokens, c))"
  by pat_completeness auto
termination
  by (relation "measure (\<lambda>(be, m, cfg, n_prompt, i, response_tokens, c). nat (n_predict cfg - i))")
    auto

definition generate ::
  "('m, 'c) llama \<Rightarrow> 'm \<Rightarrow> Config \<Rightarrow> 'c llama_context \<Rightarrow> int list
     \<Rightarrow> (exception + int list) \<times> 'c llama_context" where
  "generate be m cfg c prompt_tokens =
     (case eval_call be c prompt_tokens (size_to_int (length prompt_tokens)) 0 (n_threads cfg) of
        (rc, c1) \<Rightarrow>
          if rc \<noteq> 0 then (Inl (runtime_error ''Failed to evaluate prompt''), c1)
          else generate_loop be m cfg (length prompt_tokens) 0 [] c1)"

text \<open>
  \<^verbatim>\<open>detokenize\<close>: each token is rendered into a fresh buffer of 256 bytes, and the first
  \<^verbatim>\<open>n_chars\<close> bytes of the buffer are appended when \<^verbatim>\<open>n_chars\<close> is positive. (A count
  above 256 would make the code read past the buffer; the model stops at its end.)
\<close>

fun detokenize_loop :: "('m, 'c) llama \<Rightarrow> 'm \<Rightarrow> string \<Rightarrow> int list \<Rightarrow> string" where
  "detokenize_loop be m result [] = result"
| "detokenize_loop be m result (token # tokens) =
     (case llama_token_to_piece be m token 256 of
        (n_chars, written) \<Rightarrow>
          (let buf = take 256 written @ replicate (256 - length written) (CHR 0x00)
           in detokenize_loop be m
                (if n_chars > 0 then result @ take (nat n_chars) buf else result) tokens))"

definition detokenize :: "('m, 'c) llama \<Rightarrow> 'm \<Rightarrow> int list \<Rightarrow> string" where
  "detokenize be m tokens = detokenize_loop be m [] tokens"

subsection \<open>Responses\<close>

text \<open>
  The two builders fill an object and return its \<^verbatim>\<open>dump()\<close>, which can throw. The last
  argument of both is the value that
  \<^verbatim>\<open>std::chrono::system_clock::now().time_since_epoch().count()\<close> returns at the call.
\<close>

definition success_object :: "string \<Rightarrow> string \<Rightarrow> int \<Rightarrow> int \<Rightarrow> (string \<times> json) list" where
  "success_object text request_id processing_time now =
     [(''model'', JString ''gemma-3-270m-q4_0''),
      (''processing_time_ms'', JInt processing_time),
      (''request_id'', JString request_id),
      (''response'', JString text),
      (''success'', JBool True),
      (''timestamp'', JInt now)]"

definition createSuccessResponse ::
  "string \<Rightarrow> string \<Rightarrow> int \<Rightarrow> int \<Rightarrow> exception + json_object" where
  "createSuccessResponse text request_id processing_time now =
     dump (success_object text request_id processing_time now)"

definition error_object :: "string \<Rightarrow> string \<Rightarrow> int \<Rightarrow> (string \<times> json) list" where
  "error_object error request_id now =
     [(''error'', JString error),
      (''request_id'', JString request_id),
      (''success'', JBool False),
      (''timestamp'', JInt now)]"

definition createErrorResponse :: "string \<Rightarrow> string \<Rightarrow> int \<Rightarrow> exception + json_object" where
  "createErrorResponse error request_id now = dump (error_object error request_id now)"

text \<open>
  What a caller finds under a key of the response, when the outcome of a call is a
  response; an outcome that is an exception has no fields.
\<close>

definition response_field :: "exception + json_object \<Rightarrow> string \<Rightarrow> json option" where
  "response_field outcome key = (case outcome of Inr r \<Rightarrow> r key | Inl e \<Rightarrow> None)"

subsection \<open>processRequest\<close>

text \<open>
  The clock values a call observes: the two readings of the high resolution clock (in
  its ticks, nanoseconds), the reading of the system clock that the response builder
  makes, and the reading that \<^verbatim>\<open>createErrorResponse\<close> makes in the handler when
  \<^verbatim>\<open>createSuccessResponse\<close> has read the clock and then thrown.
  \<^verbatim>\<open>duration_cast<milliseconds>\<close> truncates towards zero.
\<close>

record clock =
  start_time :: int
  end_time :: int
  system_now :: int
  system_now_handler :: int

definition duration_cast_ms :: "int \<Rightarrow> int" where
  "duration_cast_ms d = sgn d * (\<bar>d\<bar> div 1000000)"

text \<open>
  The result is the response, \<open>Inr\<close>, or the exception that leaves the function,
  \<open>Inl\<close>, together with the processor as the call leaves it. The first
  \<^verbatim>\<open>createErrorResponse\<close> stands before the \<^verbatim>\<open>try\<close> and the others stand in the
  handler, so what they throw leaves the function. \<^verbatim>\<open>createSuccessResponse\<close> stands
  in the \<^verbatim>\<open>try\<close>, after the update of the statistics: what it throws is caught.
\<close>

definition processRequest ::
  "('m, 'c) llama \<Rightarrow> clock \<Rightarrow> ('m, 'c) GGUFProcessor \<Rightarrow> string \<Rightarrow> string
     \<Rightarrow> (exception + json_object) \<times> ('m, 'c) GGUFProcessor" where
  "processRequest be clk p prompt request_id =
     (if \<not> isModelLoaded p
      then (createErrorResponse ''Model not loaded'' request_id (system_now clk), p)
      else
        (let m = the (model p); c = the (ctx p) in
         case tokenize be m prompt of
           Inl e \<Rightarrow> (createErrorResponse (what e) request_id (system_now clk), p)
         | Inr tokens \<Rightarrow>
             (case generate be m (config p) c tokens of
                (Inl e, c') \<Rightarrow>
                  (createErrorResponse (what e) request_id (system_now clk), p\<lparr>ctx := Some c'\<rparr>)
              | (Inr response_tokens, c') \<Rightarrow>
                  (let response_text = detokenize be m response_tokens;
                       duration = duration_cast_ms (end_time clk - start_time clk);
                       p' = p\<lparr>ctx := Some c',
                              total_requests_processed := total_requests_processed p + 1,
                              total_tokens_processed := total_tokens_processed p
                                + word_of_nat (length tokens + length response_tokens),
                              average_processing_time :=
                                average_processing_time p * (99 / 100)
                                  + real_of_int duration * (1 / 100)\<rparr>
                   in case createSuccessResponse response_text request_id duration
                             (system_now clk) of
                        Inr response \<Rightarrow> (Inr response, p')
                      | Inl e \<Rightarrow>
                          (createErrorResponse (what e) request_id (system_now_handler clk),
                           p')))))"

subsection \<open>The exported functions and the global processor\<close>

text \<open>
  \<^verbatim>\<open>global_processor\<close> and the static string \<^verbatim>\<open>last_result\<close> of \<^verbatim>\<open>process_request\<close>
  (empty, \<open>None\<close>, until the first request reaches a processor).
\<close>

record ('m, 'c) globals =
  global_processor :: "('m, 'c) GGUFProcessor option"
  last_result :: "json_object option"





definition shutdown_processor :: "('m, 'c) globals \<Rightarrow> ('m, 'c) globals" where
  "shutdown_processor g = g\<lparr>global_processor := None\<rparr>"

subsection \<open>The interactive loop of main\<close>

text \<open>
  Standard input: the complete lines still to be read, the bytes after the last
  newline, and whether the stream has met the end of the input. \<^verbatim>\<open>std::getline\<close>
  stores the next line in \<^verbatim>\<open>prompt\<close>. When no complete line is left it stores the
  remaining bytes and the stream is at its end; from then on every call fails and
  leaves \<^verbatim>\<open>prompt\<close> as it is.
\<close>

record istream =
  pending_lines :: "string list"
  last_fragment :: string
  eofbit :: bool

definition getline :: "istream \<Rightarrow> string \<Rightarrow> string \<times> istream" where
  "getline cin prompt =
     (if eofbit cin then (prompt, cin)
      else case pending_lines cin of
             l # ls \<Rightarrow> (l, cin\<lparr>pending_lines := ls\<rparr>)
           | [] \<Rightarrow> (last_fragment cin, cin\<lparr>eofbit := True\<rparr>))"

text \<open>
  The variables of \<^verbatim>\<open>main\<close> that the loop works on: \<^verbatim>\<open>std::cin\<close>, \<^verbatim>\<open>prompt\<close>,
  \<^verbatim>\<open>request_count\<close> and \<^verbatim>\<open>processor\<close>, and with them the exchanges made so far, in
  order: the request id, the prompt and the response of each call of
  \<^verbatim>\<open>processRequest\<close>. \<^verbatim>\<open>request_count\<close> is a 32-bit \<^verbatim>\<open>int\<close> that the loop increments
  without a bound; the increment of its largest value, which C++ leaves undefined,
  wraps here as two's complement machines do, and \<open>sint\<close> reads the counter.
\<close>

type_synonym exchange = "string \<times> string \<times> json_object"

record ('m, 'c) loop_state =
  loop_cin :: istream
  loop_prompt :: string
  loop_request_count :: "32 word"
  loop_processor :: "('m, 'c) GGUFProcessor"
  loop_transcript :: "exchange list"

text \<open>
  The loop is left by \<^verbatim>\<open>break\<close>, or by an exception of \<^verbatim>\<open>processRequest\<close>, which
  nothing in \<^verbatim>\<open>main\<close> catches.
\<close>

datatype loop_exit = Break | Uncaught exception

text \<open>
  One iteration of \<^verbatim>\<open>while (true)\<close>: the next state, \<open>Inl\<close>, or the way the loop is
  left, \<open>Inr\<close>. \<open>clk n\<close> are the clock values that the call of \<^verbatim>\<open>processRequest\<close>
  observes which is made after \<open>n\<close> exchanges.
\<close>

definition loop_body ::
  "('m, 'c) llama \<Rightarrow> (nat \<Rightarrow> clock) \<Rightarrow> ('m, 'c) loop_state
     \<Rightarrow> ('m, 'c) loop_state + loop_exit \<times> ('m, 'c) loop_state" where
  "loop_body be clk s =
     (case getline (loop_cin s) (loop_prompt s) of
        (prompt, cin') \<Rightarrow>
          (let s1 = s\<lparr>loop_cin := cin', loop_prompt := prompt\<rparr> in
           if prompt = ''quit'' \<or> prompt = ''exit'' then Inr (Break, s1)
           else if prompt = [] then Inl s1
           else
             (let request_count = loop_request_count s1 + 1;
                  request_id = ''local_'' @ to_string (sint request_count);
                  s2 = s1\<lparr>loop_request_count := request_count\<rparr>
              in case processRequest be (clk (length (loop_transcript s2)))
                        (loop_processor s2) prompt request_id of
                   (Inr result, processor) \<Rightarrow>
                     Inl (s2\<lparr>loop_processor := processor,
                              loop_transcript :=
                                loop_transcript s2 @ [(request_id, prompt, result)]\<rparr>)
                 | (Inl e, processor) \<Rightarrow>
                     Inr (Uncaught e, s2\<lparr>loop_processor := processor\<rparr>))))"

text \<open>
  The loop does not test the stream, so at the end of an input without ''quit'' or
  ''exit'' it goes round for ever: the loop is a partial function, and not returning
  is \<open>None\<close>. What a run that does not return does is seen through its iterations:
  \<open>loop_iterations n\<close> is the state after \<open>n\<close> of them, or the exit if the loop was
  left before.
\<close>

partial_function (option) interactive_loop ::
  "('m, 'c) llama \<Rightarrow> (nat \<Rightarrow> clock) \<Rightarrow> ('m, 'c) loop_state
     \<Rightarrow> (loop_exit \<times> ('m, 'c) loop_state) option" where
  "interactive_loop be clk s =
     (case loop_body be clk s of
        Inl s' \<Rightarrow> interactive_loop be clk s'
      | Inr left \<Rightarrow> Some left)"



text \<open>
  \<^verbatim>\<open>main\<close>, from the command line and standard input: the exit code, or the exception
  that ends the program, and the exchanges made.
\<close>

definition main_loop_start :: "istream \<Rightarrow> ('m, 'c) GGUFProcessor \<Rightarrow> ('m, 'c) loop_state" where
  "main_loop_start cin processor =
     \<lparr>loop_cin = cin, loop_prompt = [], loop_request_count = 0,
      loop_processor = processor, loop_transcript = []\<rparr>"

definition main ::
  "('m, 'c) llama \<Rightarrow> (nat \<Rightarrow> clock) \<Rightarrow> string list \<Rightarrow> istream
     \<Rightarrow> ((exception + int) \<times> exchange list) option" where
  "main be clk argv cin =
     (let path = (if length argv > 1 then argv ! 1 else ''models/gemma-3-270m-it-qat-Q4_0.gguf'')
      in case initialize be new_GGUFProcessor path of
           (ok, processor) \<Rightarrow>
             if \<not> ok then Some (Inr 1, [])
             else map_option
                    (\<lambda>(left, s). (case left of Break \<Rightarrow> Inr 0 | Uncaught e \<Rightarrow> Inl e,
                                   loop_transcript s))
                    (interactive_loop be clk (main_loop_start cin processor)))"

subsection \<open>A scripted backend\<close>

text \<open>
  A small backend on which the functions above can be run: its context state is the
  number of evaluation calls made, the logits are a function of that state, and
  \<open>fails s\<close> says whether the evaluation call made in state \<open>s\<close> fails. The tokenizer
  writes a begin-of-sequence token and one token per byte; the end-of-sequence token
  is 2.
\<close>

definition test_backend ::
  "int \<Rightarrow> (nat \<Rightarrow> int \<Rightarrow> real) \<Rightarrow> (nat \<Rightarrow> bool) \<Rightarrow> (unit, nat) llama" where
  "test_backend vocab logits fails =
     \<lparr>llama_load_model_from_file = (\<lambda>path gpu_layers mmap mlock. Some ()),
      llama_new_context_with_model = (\<lambda>m ctx_size batch threads. Some 0),
      llama_tokenize =
        (\<lambda>m text cap add_bos special. (1 + int (length text), 1 # map (\<lambda>ch. 3) text)),
      llama_eval = (\<lambda>s tokens n_tokens n_past threads. (if fails s then 1 else 0, Suc s)),
      llama_get_logits = logits,
      llama_n_vocab = (\<lambda>m. vocab),
      llama_token_eos = (\<lambda>m. 2),
      llama_token_to_piece = (\<lambda>m token cap. if token = 5 then (2, ''Hi'') else (1, ''!''))\<rparr>"

text \<open>The logits 1, 3, 3, 2: a tie for the maximum, at the indices 1 and 2.\<close>

definition tied_logits :: "nat \<Rightarrow> int \<Rightarrow> real" where
  "tied_logits s i = (if i = 1 \<or> i = 2 then 3 else if i = 3 then 2 else 1)"

text \<open>Logits whose maximum stands at the index \<open>script s\<close> in state \<open>s\<close>.\<close>

definition scripted_logits :: "(nat \<Rightarrow> int) \<Rightarrow> nat \<Rightarrow> int \<Rightarrow> real" where
  "scripted_logits script s i = (if i = script s then 1 else 0)"

text \<open>
  A script that makes the backend sample the tokens 5 and 6 and then the
  end-of-sequence token; an evaluation that fails in state \<open>k\<close> only; a backend whose
  model file cannot be loaded.
\<close>

definition hello_script :: "nat \<Rightarrow> int" where
  "hello_script s = (if s = 1 then 5 else if s = 2 then 6 else 2)"

definition fails_at :: "nat \<Rightarrow> nat \<Rightarrow> bool" where
  "fails_at k s = (s = k)"

definition no_model_backend :: "(unit, nat) llama" where
  "no_model_backend =
     (test_backend 8 (scripted_logits hello_script) (\<lambda>s. False))
       \<lparr>llama_load_model_from_file := (\<lambda>path gpu_layers mmap mlock. None)\<rparr>"

text \<open>A backend whose tokens are rendered as bytes that are not UTF-8.\<close>

definition raw_bytes_backend :: "(unit, nat) llama" where
  "raw_bytes_backend =
     (test_backend 8 (scripted_logits hello_script) (\<lambda>s. False))
       \<lparr>llama_token_to_piece := (\<lambda>m token cap. (1, [CHR 0xFF]))\<rparr>"

text \<open>Clock values 42 ms apart, and a loaded processor whose \<^verbatim>\<open>n_predict\<close> is \<open>np\<close>.\<close>

definition test_clock :: clock where
  "test_clock =
     \<lparr>start_time = 1000000000, end_time = 1042000000, system_now = 1700000000000000000,
      system_now_handler = 1700000000000000001\<rparr>"

definition test_processor :: "int \<Rightarrow> (unit, nat) GGUFProcessor" where
  "test_processor np =
     new_GGUFProcessor\<lparr>model := Some (), ctx := Some \<lparr>backend_state = 0, n_eval_calls = 0\<rparr>,
       config := default_Config\<lparr>n_predict := np\<rparr>\<rparr>"

section \<open>Properties\<close>

declare sample_token_loop.simps [simp del]
declare generate_loop.simps [simp del]
declare string_of_nat.simps [simp del]

subsection \<open>Greedy sampling\<close>

text \<open>
  The invariant of the loop of \<^verbatim>\<open>sample_token\<close>: before the iteration at index \<open>i\<close>,
  \<open>best_token\<close> holds a maximum of the logits below \<open>i\<close>, and every logit before
  \<open>best_token\<close> is strictly smaller.
\<close>

lemma sample_token_loop_argmax:
  assumes "0 \<le> b" and "b < i" and "i \<le> n" and "bl = L b"
    and "\<forall>j. 0 \<le> j \<and> j < i \<longrightarrow> L j \<le> L b"
    and "\<forall>j. 0 \<le> j \<and> j < b \<longrightarrow> L j < L b"
  shows "0 \<le> sample_token_loop L n i b bl \<and> sample_token_loop L n i b bl < n \<and>
         (\<forall>j. 0 \<le> j \<and> j < n \<longrightarrow> L j \<le> L (sample_token_loop L n i b bl)) \<and>
         (\<forall>j. 0 \<le> j \<and> j < sample_token_loop L n i b bl
              \<longrightarrow> L j < L (sample_token_loop L n i b bl))"
  using assms
proof (induction L n i b bl rule: sample_token_loop.induct)
  case (1 L n i b bl)
  show ?case
  proof (cases "i < n")
    case False
    with "1.prems" have "i = n" by simp
    with "1.prems" show ?thesis by (simp add: sample_token_loop.simps)
  next
    case inb: True
    show ?thesis
    proof (cases "L i > bl")
      case True
      have step: "sample_token_loop L n i b bl = sample_token_loop L n (i + 1) i (L i)"
        using inb True by (subst sample_token_loop.simps) simp
      have a: "\<forall>j. 0 \<le> j \<and> j < i + 1 \<longrightarrow> L j \<le> L i"
      proof (intro allI impI)
        fix j assume "0 \<le> j \<and> j < i + 1"
        then have "j = i \<or> (0 \<le> j \<and> j < i)" by auto
        then show "L j \<le> L i" using "1.prems" True by force
      qed
      have b: "\<forall>j. 0 \<le> j \<and> j < i \<longrightarrow> L j < L i"
        using "1.prems" True by force
      show ?thesis
        unfolding step
        by (rule "1.IH"(1) [OF inb True]) (use "1.prems" inb a b in auto)
    next
      case False
      have step: "sample_token_loop L n i b bl = sample_token_loop L n (i + 1) b bl"
        using inb False by (subst sample_token_loop.simps) simp
      have a: "\<forall>j. 0 \<le> j \<and> j < i + 1 \<longrightarrow> L j \<le> L b"
      proof (intro allI impI)
        fix j assume "0 \<le> j \<and> j < i + 1"
        then have "j = i \<or> (0 \<le> j \<and> j < i)" by auto
        then show "L j \<le> L b" using "1.prems" False by force
      qed
      show ?thesis
        unfolding step
        by (rule "1.IH"(2) [OF inb False]) (use "1.prems" inb a in auto)
    qed
  qed
qed

text \<open>
  C4. For a vocabulary of \<open>n_vocab \<ge> 1\<close> logits, \<^verbatim>\<open>sample_token\<close> returns an index of
  the vocabulary that holds the maximum logit, and every index before it holds a
  strictly smaller logit: among the indices that share the maximum it is the lowest.
  The result is a function of the logits and of \<open>n_vocab\<close> alone.
\<close>

theorem sample_token_greedy_lowest_index:
  assumes "1 \<le> llama_n_vocab be m"
  shows "0 \<le> sample_token be m c \<and> sample_token be m c < llama_n_vocab be m \<and>
         (\<forall>j. 0 \<le> j \<and> j < llama_n_vocab be m \<longrightarrow>
              llama_get_logits be (backend_state c) j
                \<le> llama_get_logits be (backend_state c) (sample_token be m c)) \<and>
         (\<forall>j. 0 \<le> j \<and> j < sample_token be m c \<longrightarrow>
              llama_get_logits be (backend_state c) j
                < llama_get_logits be (backend_state c) (sample_token be m c))"
proof -
  let ?L = "llama_get_logits be (backend_state c)"
  have first: "\<forall>j. 0 \<le> j \<and> j < 1 \<longrightarrow> ?L j \<le> ?L 0"
  proof (intro allI impI)
    fix j :: int assume "0 \<le> j \<and> j < 1"
    then have "j = 0" by arith
    then show "?L j \<le> ?L 0" by simp
  qed
  have "sample_token be m c = sample_token_loop ?L (llama_n_vocab be m) 1 0 (?L 0)"
    by (simp add: sample_token_def Let_def)
  moreover note sample_token_loop_argmax [of 0 1 "llama_n_vocab be m" "?L 0" ?L]
  ultimately show ?thesis using assms first by simp
qed

text \<open>
  On the logits \<open>1, 3, 3, 2\<close> the maximum 3 stands at the indices 1 and 2; the theorem
  places the result in the vocabulary, at least as large as the logit at index 2 and
  strictly above the logit at index 0, and the evaluation gives index 1.
\<close>

theorem sample_token_greedy_lowest_index_witness:
  "1 \<le> llama_n_vocab (test_backend 4 tied_logits (\<lambda>s. False)) () \<and>
   sample_token (test_backend 4 tied_logits (\<lambda>s. False)) ()
     \<lparr>backend_state = 0, n_eval_calls = 0\<rparr> = 1 \<and>
   sample_token (test_backend 4 tied_logits (\<lambda>s. False)) ()
     \<lparr>backend_state = 0, n_eval_calls = 0\<rparr> < 4 \<and>
   tied_logits 0 2 \<le> tied_logits 0 (sample_token (test_backend 4 tied_logits (\<lambda>s. False)) ()
     \<lparr>backend_state = 0, n_eval_calls = 0\<rparr>) \<and>
   tied_logits 0 0 < tied_logits 0 (sample_token (test_backend 4 tied_logits (\<lambda>s. False)) ()
     \<lparr>backend_state = 0, n_eval_calls = 0\<rparr>)"
proof -
  let ?be = "test_backend 4 tied_logits (\<lambda>s. False)"
  let ?c = "\<lparr>backend_state = 0 :: nat, n_eval_calls = 0\<rparr>"
  have h: "1 \<le> llama_n_vocab ?be ()" by (simp add: test_backend_def)
  have v: "sample_token ?be () ?c = 1"
    by (simp add: sample_token_def Let_def test_backend_def tied_logits_def
        sample_token_loop.simps)
  from sample_token_greedy_lowest_index [OF h, of ?c]
  have "sample_token ?be () ?c < llama_n_vocab ?be ()"
    and "\<forall>j. 0 \<le> j \<and> j < llama_n_vocab ?be () \<longrightarrow>
           llama_get_logits ?be (backend_state ?c) j
             \<le> llama_get_logits ?be (backend_state ?c) (sample_token ?be () ?c)"
    and "\<forall>j. 0 \<le> j \<and> j < sample_token ?be () ?c \<longrightarrow>
           llama_get_logits ?be (backend_state ?c) j
             < llama_get_logits ?be (backend_state ?c) (sample_token ?be () ?c)"
    by blast+
  then have "sample_token ?be () ?c < 4"
    and "tied_logits 0 2 \<le> tied_logits 0 (sample_token ?be () ?c)"
    and "tied_logits 0 0 < tied_logits 0 (sample_token ?be () ?c)"
    using v by (simp_all add: test_backend_def)
  with h v show ?thesis by blast
qed

subsection \<open>The evaluation calls of generate\<close>

lemma eval_call_counts:
  "n_eval_calls (snd (eval_call be c tokens n_tokens n_past nt)) = Suc (n_eval_calls c)"
  by (simp add: eval_call_def split: prod.splits)

text \<open>From index \<open>i\<close> on, the loop makes at most \<open>n_predict - i\<close> evaluation calls.\<close>

lemma generate_loop_eval_calls:
  "n_eval_calls (snd (generate_loop be m cfg n_prompt i response_tokens c))
     \<le> n_eval_calls c + nat (n_predict cfg - i)"
proof (induction be m cfg n_prompt i response_tokens c rule: generate_loop.induct)
  case (1 be m cfg n_prompt i response_tokens c)
  let ?token = "sample_token be m c"
  let ?call = "eval_call be c [?token] 1
                 (size_to_int (n_prompt + length (response_tokens @ [?token]))) (n_threads cfg)"
  show ?case
  proof (cases "i < n_predict cfg \<and> ?token \<noteq> llama_token_eos be m \<and> fst ?call = 0")
    case False
    then show ?thesis
      using eval_call_counts [of be c "[?token]" 1
          "size_to_int (n_prompt + length (response_tokens @ [?token]))" "n_threads cfg"]
      by (subst generate_loop.simps) (auto simp: Let_def split: prod.splits)
  next
    case True
    obtain rc c' where call: "?call = (rc, c')" by (cases ?call)
    with True have rc: "rc = 0" by simp
    have c': "n_eval_calls c' = Suc (n_eval_calls c)"
      using eval_call_counts [of be c "[?token]" 1
          "size_to_int (n_prompt + length (response_tokens @ [?token]))" "n_threads cfg"] call
      by simp
    have step: "generate_loop be m cfg n_prompt i response_tokens c
                  = generate_loop be m cfg n_prompt (i + 1) (response_tokens @ [?token]) c'"
      using True call rc by (subst generate_loop.simps) (simp add: Let_def)
    have "n_eval_calls
            (snd (generate_loop be m cfg n_prompt (i + 1) (response_tokens @ [?token]) c'))
            \<le> n_eval_calls c' + nat (n_predict cfg - (i + 1))"
      using "1.IH" [OF _ refl _ call [symmetric]] True rc by simp
    moreover have "Suc (nat (n_predict cfg - (i + 1))) = nat (n_predict cfg - i)"
      using True by arith
    ultimately show ?thesis unfolding step c' by linarith
  qed
qed

text \<open>
  C5. For every prompt token list and every \<open>n_predict \<ge> 0\<close>, \<^verbatim>\<open>generate\<close> (a total
  function: its loop terminates) makes at most \<open>n_predict + 1\<close> backend evaluation
  calls: the number of calls recorded on the context grows by at most that much.
\<close>

theorem generate_eval_calls_bounded:
  assumes "0 \<le> n_predict cfg"
  shows "int (n_eval_calls (snd (generate be m cfg c prompt_tokens))) - int (n_eval_calls c)
           \<le> n_predict cfg + 1"
proof -
  let ?call = "eval_call be c prompt_tokens (size_to_int (length prompt_tokens)) 0 (n_threads cfg)"
  obtain rc c1 where call: "?call = (rc, c1)" by (cases ?call)
  have c1: "n_eval_calls c1 = Suc (n_eval_calls c)"
    using eval_call_counts [of be c prompt_tokens "size_to_int (length prompt_tokens)" 0
        "n_threads cfg"] call by simp
  show ?thesis
  proof (cases "rc = 0")
    case False
    with call have "generate be m cfg c prompt_tokens
        = (Inl (runtime_error ''Failed to evaluate prompt''), c1)"
      by (simp add: generate_def)
    with c1 assms show ?thesis by simp
  next
    case True
    with call have "generate be m cfg c prompt_tokens
        = generate_loop be m cfg (length prompt_tokens) 0 [] c1"
      by (simp add: generate_def)
    moreover have "n_eval_calls (snd (generate_loop be m cfg (length prompt_tokens) 0 [] c1))
        \<le> n_eval_calls c1 + nat (n_predict cfg - 0)"
      by (rule generate_loop_eval_calls)
    ultimately show ?thesis using c1 assms by simp
  qed
qed

text \<open>
  With \<open>n_predict = 2\<close> and a backend that never samples the end-of-sequence token the
  bound is reached: one call for the prompt and one for each of the two tokens.
\<close>

theorem generate_eval_calls_bounded_witness:
  "0 \<le> n_predict (default_Config\<lparr>n_predict := 2\<rparr>) \<and>
   n_eval_calls (snd (generate (test_backend 8 (scripted_logits (\<lambda>s. 5)) (\<lambda>s. False)) ()
     (default_Config\<lparr>n_predict := 2\<rparr>) \<lparr>backend_state = 0, n_eval_calls = 0\<rparr> [1, 3])) = 3 \<and>
   int (n_eval_calls (snd (generate (test_backend 8 (scripted_logits (\<lambda>s. 5)) (\<lambda>s. False)) ()
     (default_Config\<lparr>n_predict := 2\<rparr>) \<lparr>backend_state = 0, n_eval_calls = 0\<rparr> [1, 3])))
     - int (n_eval_calls \<lparr>backend_state = 0 :: nat, n_eval_calls = 0\<rparr>)
     \<le> n_predict (default_Config\<lparr>n_predict := 2\<rparr>) + 1"
proof -
  let ?be = "test_backend 8 (scripted_logits (\<lambda>s. 5)) (\<lambda>s. False)"
  let ?cfg = "default_Config\<lparr>n_predict := 2\<rparr>"
  let ?c = "\<lparr>backend_state = 0 :: nat, n_eval_calls = 0\<rparr>"
  have h: "0 \<le> n_predict ?cfg" by simp
  have run: "generate ?be () ?cfg ?c [1, 3]
               = (Inr [5, 5], \<lparr>backend_state = 3, n_eval_calls = 3\<rparr>)"
    by (simp add: generate_def eval_call_def test_backend_def default_Config_def
        generate_loop.simps sample_token_def scripted_logits_def sample_token_loop.simps
        Let_def size_to_int_def)
  from generate_eval_calls_bounded [OF h, of ?be "()" ?c "[1, 3]"] h run
  show ?thesis by simp
qed

subsection \<open>Strings that are valid UTF-8\<close>

lemma ascii_Nil [simp]: "ascii []"
  by (simp add: ascii_def)

lemma ascii_Cons [simp]: "ascii (c # s) = ((of_char c :: nat) < 128 \<and> ascii s)"
  by (simp add: ascii_def)

lemma ascii_append [simp]: "ascii (xs @ ys) = (ascii xs \<and> ascii ys)"
  by (auto simp: ascii_def)

lemma ascii_scan: "ascii s \<Longrightarrow> utf8_scan Accept i prev s = None"
proof (induction s arbitrary: i prev)
  case Nil
  show ?case by simp
next
  case (Cons c cs)
  then have c: "(of_char c :: nat) < 128" and cs: "ascii cs" by simp_all
  then have "utf8_step Accept (of_char c) = Accept" by (simp add: utf8_lead_def)
  with Cons.IH [OF cs] show ?case by simp
qed

lemma ascii_fault: "ascii s \<Longrightarrow> utf8_fault s = None"
  by (simp add: utf8_fault_def ascii_scan)

lemma ascii_valid: "ascii s \<Longrightarrow> valid_utf8 s"
  by (simp add: valid_utf8_def ascii_fault)

lemma digit_ascii: "k < 10 \<Longrightarrow> (of_char (''0123456789'' ! k) :: nat) < 128"
proof -
  assume "k < 10"
  then have "k \<in> {0, 1, 2, 3, 4, 5, 6, 7, 8, 9}" by simp arith
  then show ?thesis by auto
qed

lemma hex_digit_ascii: "k < 16 \<Longrightarrow> (of_char (''0123456789ABCDEF'' ! k) :: nat) < 128"
proof -
  assume "k < 16"
  then have "k \<in> {0, 1, 2, 3, 4, 5, 6, 7, 8, 9, 10, 11, 12, 13, 14, 15}" by simp arith
  then show ?thesis by auto
qed

lemma string_of_nat_ascii: "ascii (string_of_nat n)"
proof (induction n rule: string_of_nat.induct)
  case (1 n)
  show ?case
  proof (cases "n < 10")
    case True
    then show ?thesis by (subst string_of_nat.simps) (simp add: digit_ascii)
  next
    case False
    have "n mod 10 < 10" by simp
    then have "(of_char (''0123456789'' ! (n mod 10)) :: nat) < 128" by (rule digit_ascii)
    with False "1.IH" show ?thesis by (subst string_of_nat.simps) simp
  qed
qed


lemma hex_bytes_ascii: "ascii (hex_bytes b)"
  by (simp add: hex_bytes_def hex_digit_ascii)

lemma utf8_scan_message_ascii: "utf8_scan st i prev s = Some msg \<Longrightarrow> ascii msg"
proof (induction s arbitrary: st i prev)
  case Nil
  then show ?case
    using hex_bytes_ascii [of prev] by (auto split: if_splits)
next
  case (Cons c cs)
  show ?case
  proof (cases "utf8_step st (of_char c) = Reject")
    case True
    with Cons.prems show ?thesis
      using hex_bytes_ascii [of "of_char c"] string_of_nat_ascii [of i] by auto
  next
    case False
    with Cons.prems Cons.IH show ?thesis by simp
  qed
qed

lemma utf8_fault_message: "utf8_fault s = Some msg \<Longrightarrow> utf8_fault msg = None"
  unfolding utf8_fault_def
  by (rule ascii_fault [unfolded utf8_fault_def]) (rule utf8_scan_message_ascii)


subsection \<open>The two response builders\<close>

lemma createErrorResponse_eq:
  "createErrorResponse error request_id now =
     (case utf8_fault error of
        Some msg \<Rightarrow> Inl (type_error msg)
      | None \<Rightarrow>
          (case utf8_fault request_id of
             Some msg \<Rightarrow> Inl (type_error msg)
           | None \<Rightarrow> Inr (map_of (error_object error request_id now))))"
proof -
  have keys: "utf8_fault ''error'' = None" "utf8_fault ''request_id'' = None"
    "utf8_fault ''success'' = None" "utf8_fault ''timestamp'' = None"
    by (simp_all add: ascii_fault)
  show ?thesis
    by (simp add: createErrorResponse_def dump_def error_object_def keys split: option.splits)
qed

lemma createSuccessResponse_eq:
  "createSuccessResponse text request_id t now =
     (case utf8_fault request_id of
        Some msg \<Rightarrow> Inl (type_error msg)
      | None \<Rightarrow>
          (case utf8_fault text of
             Some msg \<Rightarrow> Inl (type_error msg)
           | None \<Rightarrow> Inr (map_of (success_object text request_id t now))))"
proof -
  have keys: "utf8_fault ''model'' = None" "utf8_fault ''processing_time_ms'' = None"
    "utf8_fault ''request_id'' = None" "utf8_fault ''response'' = None"
    "utf8_fault ''success'' = None" "utf8_fault ''timestamp'' = None"
    "utf8_fault ''gemma-3-270m-q4_0'' = None"
    by (simp_all add: ascii_fault)
  show ?thesis
    by (simp add: createSuccessResponse_def dump_def success_object_def keys split: option.splits)
qed

lemma createErrorResponse_valid:
  "valid_utf8 error \<Longrightarrow> valid_utf8 request_id \<Longrightarrow>
   createErrorResponse error request_id now = Inr (map_of (error_object error request_id now))"
  by (simp add: createErrorResponse_eq valid_utf8_def)


lemma createErrorResponse_response:
  "createErrorResponse error request_id now = Inr r \<Longrightarrow>
   r = map_of (error_object error request_id now)"
  by (auto simp: createErrorResponse_eq split: option.splits)

lemma createSuccessResponse_valid:
  "valid_utf8 text \<Longrightarrow> valid_utf8 request_id \<Longrightarrow>
   createSuccessResponse text request_id t now
     = Inr (map_of (success_object text request_id t now))"
  by (simp add: createSuccessResponse_eq valid_utf8_def)

lemma createSuccessResponse_response:
  "createSuccessResponse text request_id t now = Inr r \<Longrightarrow>
   r = map_of (success_object text request_id t now)"
  by (auto simp: createSuccessResponse_eq split: option.splits)

lemma createSuccessResponse_throws:
  "createSuccessResponse text request_id t now = Inl e \<Longrightarrow> valid_utf8 (what e)"
  by (auto simp: createSuccessResponse_eq valid_utf8_def utf8_fault_message split: option.splits)

lemma createSuccessResponse_invalid_text:
  "\<not> valid_utf8 text \<Longrightarrow> isl (createSuccessResponse text request_id t now)"
  by (auto simp: createSuccessResponse_eq valid_utf8_def split: option.splits)

lemma error_object_fields:
  "map_of (error_object error request_id now) ''success'' = Some (JBool False)"
  "map_of (error_object error request_id now) ''request_id'' = Some (JString request_id)"
  "map_of (error_object error request_id now) ''error'' = Some (JString error)"
  "map_of (error_object error request_id now) ''timestamp'' = Some (JInt now)"
  "map_of (error_object error request_id now) ''response'' = None"
  "map_of (error_object error request_id now) ''processing_time_ms'' = None"
  "map_of (error_object error request_id now) ''model'' = None"
  "map_of (error_object error request_id now) ''incomplete'' = None"
  "map_of (error_object error request_id now) ''completion_tokens'' = None"
  by (simp_all add: error_object_def)

lemma success_object_fields:
  "map_of (success_object text request_id t now) ''success'' = Some (JBool True)"
  "map_of (success_object text request_id t now) ''request_id'' = Some (JString request_id)"
  "map_of (success_object text request_id t now) ''response'' = Some (JString text)"
  "map_of (success_object text request_id t now) ''processing_time_ms'' = Some (JInt t)"
  "map_of (success_object text request_id t now) ''model''
     = Some (JString ''gemma-3-270m-q4_0'')"
  "map_of (success_object text request_id t now) ''timestamp'' = Some (JInt now)"
  "map_of (success_object text request_id t now) ''error'' = None"
  "map_of (success_object text request_id t now) ''completion_tokens'' = None"
  by (simp_all add: success_object_def)

subsection \<open>The paths of processRequest\<close>

lemma processRequest_not_loaded:
  "\<not> isModelLoaded p \<Longrightarrow>
   processRequest be clk p prompt request_id
     = (createErrorResponse ''Model not loaded'' request_id (system_now clk), p)"
  by (simp add: processRequest_def)

lemma processRequest_tokenize_throws:
  "isModelLoaded p \<Longrightarrow> tokenize be (the (model p)) prompt = Inl e \<Longrightarrow>
   processRequest be clk p prompt request_id
     = (createErrorResponse (what e) request_id (system_now clk), p)"
  by (simp add: processRequest_def)

lemma processRequest_generate_throws:
  "isModelLoaded p \<Longrightarrow> tokenize be (the (model p)) prompt = Inr tokens \<Longrightarrow>
   generate be (the (model p)) (config p) (the (ctx p)) tokens = (Inl e, c') \<Longrightarrow>
   processRequest be clk p prompt request_id
     = (createErrorResponse (what e) request_id (system_now clk), p\<lparr>ctx := Some c'\<rparr>)"
  by (simp add: processRequest_def)

text \<open>The processor after the update of the statistics.\<close>

lemma processRequest_generated:
  "isModelLoaded p \<Longrightarrow> tokenize be (the (model p)) prompt = Inr tokens \<Longrightarrow>
   generate be (the (model p)) (config p) (the (ctx p)) tokens = (Inr response_tokens, c') \<Longrightarrow>
   processRequest be clk p prompt request_id
     = (case createSuccessResponse (detokenize be (the (model p)) response_tokens) request_id
               (duration_cast_ms (end_time clk - start_time clk)) (system_now clk) of
          Inr response \<Rightarrow> Inr response
        | Inl e \<Rightarrow> createErrorResponse (what e) request_id (system_now_handler clk),
        p\<lparr>ctx := Some c',
          total_requests_processed := total_requests_processed p + 1,
          total_tokens_processed := total_tokens_processed p
            + word_of_nat (length tokens + length response_tokens),
          average_processing_time := average_processing_time p * (99 / 100)
            + real_of_int (duration_cast_ms (end_time clk - start_time clk)) * (1 / 100)\<rparr>)"
  by (simp add: processRequest_def Let_def split: sum.splits)

lemma processRequest_cases [case_names not_loaded tokenize_throws generate_throws success]:
  obtains
    "\<not> isModelLoaded p"
  | e where "isModelLoaded p" and "tokenize be (the (model p)) prompt = Inl e"
  | tokens e c' where "isModelLoaded p" and "tokenize be (the (model p)) prompt = Inr tokens"
      and "generate be (the (model p)) (config p) (the (ctx p)) tokens = (Inl e, c')"
  | tokens response_tokens c' where "isModelLoaded p"
      and "tokenize be (the (model p)) prompt = Inr tokens"
      and "generate be (the (model p)) (config p) (the (ctx p)) tokens
             = (Inr response_tokens, c')"
proof (cases "isModelLoaded p")
  case False
  then show ?thesis using that(1) by blast
next
  case loaded: True
  show ?thesis
  proof (cases "tokenize be (the (model p)) prompt")
    case (Inl e)
    with loaded show ?thesis using that(2) by blast
  next
    case (Inr tokens)
    obtain res c' where g: "generate be (the (model p)) (config p) (the (ctx p)) tokens = (res, c')"
      by (cases "generate be (the (model p)) (config p) (the (ctx p)) tokens")
    show ?thesis
    proof (cases res)
      case (Inl e)
      with loaded Inr g show ?thesis using that(3) by blast
    next
      case (Inr response_tokens)
      with loaded \<open>tokenize be (the (model p)) prompt = Inr tokens\<close> g
      show ?thesis using that(4) by blast
    qed
  qed
qed

text \<open>The only exceptions of \<^verbatim>\<open>generate\<close> are its two runtime errors.\<close>

lemma generate_loop_throws:
  "fst (generate_loop be m cfg n_prompt i response_tokens c) = Inl e \<Longrightarrow>
   e = runtime_error ''Failed to evaluate token''"
proof (induction be m cfg n_prompt i response_tokens c rule: generate_loop.induct)
  case (1 be m cfg n_prompt i response_tokens c)
  let ?token = "sample_token be m c"
  let ?call = "eval_call be c [?token] 1
                 (size_to_int (n_prompt + length (response_tokens @ [?token]))) (n_threads cfg)"
  obtain rc c' where call: "?call = (rc, c')" by (cases ?call)
  show ?case
  proof (cases "i < n_predict cfg \<and> ?token \<noteq> llama_token_eos be m \<and> rc = 0")
    case False
    with "1.prems" call show ?thesis
      by (subst (asm) generate_loop.simps) (auto simp: Let_def split: if_splits)
  next
    case True
    have step: "generate_loop be m cfg n_prompt i response_tokens c
                  = generate_loop be m cfg n_prompt (i + 1) (response_tokens @ [?token]) c'"
      using True call by (subst generate_loop.simps) (simp add: Let_def)
    show ?thesis
      using "1.IH" [OF _ refl _ call [symmetric]] True "1.prems" unfolding step by simp
  qed
qed

lemma generate_throws:
  assumes "generate be m cfg c prompt_tokens = (Inl e, c')"
  shows "e = runtime_error ''Failed to evaluate prompt'' \<or>
         e = runtime_error ''Failed to evaluate token''"
proof -
  let ?call = "eval_call be c prompt_tokens (size_to_int (length prompt_tokens)) 0 (n_threads cfg)"
  obtain rc c1 where call: "?call = (rc, c1)" by (cases ?call)
  show ?thesis
  proof (cases "rc = 0")
    case False
    with call assms show ?thesis by (simp add: generate_def)
  next
    case True
    with call assms have "fst (generate_loop be m cfg (length prompt_tokens) 0 [] c1) = Inl e"
      by (simp add: generate_def)
    then show ?thesis by (simp add: generate_loop_throws)
  qed
qed


lemma tokenize_throws: "tokenize be m str = Inl e \<Longrightarrow> e = length_error"
  by (auto simp: tokenize_def Let_def split: prod.splits if_splits)



text \<open>
  Every response comes from one of the two builders, with the caller's request id;
  a success response only after the statistics were updated.
\<close>

lemma processRequest_response_forms:
  assumes "fst (processRequest be clk p prompt request_id) = Inr r"
  shows "(\<exists>error now. r = map_of (error_object error request_id now)) \<or>
         (\<exists>text t now. r = map_of (success_object text request_id t now))"
proof (cases rule: processRequest_cases [where p = p and be = be and prompt = prompt])
  case not_loaded
  with assms show ?thesis
    by (auto simp: processRequest_not_loaded dest: createErrorResponse_response)
next
  case (tokenize_throws e)
  with assms show ?thesis
    by (auto simp: processRequest_tokenize_throws dest: createErrorResponse_response)
next
  case (generate_throws tokens e c')
  with assms show ?thesis
    by (auto simp: processRequest_generate_throws dest: createErrorResponse_response)
next
  case (success tokens response_tokens c')
  let ?built = "createSuccessResponse (detokenize be (the (model p)) response_tokens) request_id
                  (duration_cast_ms (end_time clk - start_time clk)) (system_now clk)"
  show ?thesis
  proof (cases ?built)
    case (Inr response)
    with success assms have "?built = Inr r" by (simp add: processRequest_generated)
    then show ?thesis by (blast dest: createSuccessResponse_response)
  next
    case (Inl e)
    with success assms
    have "createErrorResponse (what e) request_id (system_now_handler clk) = Inr r"
      by (simp add: processRequest_generated)
    then show ?thesis by (blast dest: createErrorResponse_response)
  qed
qed




subsection \<open>Runs on the scripted backend\<close>



lemma test_processor_loaded: "isModelLoaded (test_processor np)"
  by (simp add: isModelLoaded_def test_processor_def new_GGUFProcessor_def)

lemma test_processor_sel:
  "the (model (test_processor np)) = ()"
  "the (ctx (test_processor np)) = \<lparr>backend_state = 0, n_eval_calls = 0\<rparr>"
  "config (test_processor np) = default_Config\<lparr>n_predict := np\<rparr>"
  "total_requests_processed (test_processor np) = 0"
  "total_tokens_processed (test_processor np) = 0"
  "average_processing_time (test_processor np) = 0"
  by (simp_all add: test_processor_def new_GGUFProcessor_def)

lemma hello_tokenize: "tokenize (test_backend 8 L F) () ''Hello'' = Inr [1, 3, 3, 3, 3, 3]"
  by (simp add: tokenize_def test_backend_def vector_resize_def)

lemma hello_detokenize: "detokenize (test_backend 8 L F) () [5, 6] = ''Hi!''"
  by (simp add: detokenize_def test_backend_def)

lemma hello_sample:
  "sample_token (test_backend 8 (scripted_logits hello_script) F) ()
     \<lparr>backend_state = 1, n_eval_calls = a\<rparr> = 5"
  "sample_token (test_backend 8 (scripted_logits hello_script) F) ()
     \<lparr>backend_state = 2, n_eval_calls = b\<rparr> = 6"
  "sample_token (test_backend 8 (scripted_logits hello_script) F) ()
     \<lparr>backend_state = 3, n_eval_calls = d\<rparr> = 2"
  by (simp_all add: sample_token_def Let_def test_backend_def scripted_logits_def
      hello_script_def sample_token_loop.simps)

lemma test_eval:
  "eval_call (test_backend 8 L (\<lambda>s. False)) \<lparr>backend_state = s, n_eval_calls = k\<rparr> ts n past nt
     = (0, \<lparr>backend_state = Suc s, n_eval_calls = Suc k\<rparr>)"
  by (simp add: eval_call_def test_backend_def)

lemma hello_generate:
  "generate (test_backend 8 (scripted_logits hello_script) (\<lambda>s. False)) ()
     (default_Config\<lparr>n_predict := 5\<rparr>) \<lparr>backend_state = 0, n_eval_calls = 0\<rparr>
     [1, 3, 3, 3, 3, 3]
   = (Inr [5, 6], \<lparr>backend_state = 3, n_eval_calls = 3\<rparr>)"
  by (simp add: generate_def eval_call_def test_backend_def default_Config_def
      generate_loop.simps sample_token_def scripted_logits_def sample_token_loop.simps
      Let_def size_to_int_def hello_script_def)

lemma hello_generate_fails:
  "generate (test_backend 8 (scripted_logits hello_script) (fails_at 2)) ()
     (default_Config\<lparr>n_predict := 5\<rparr>) \<lparr>backend_state = 0, n_eval_calls = 0\<rparr>
     [1, 3, 3, 3, 3, 3]
   = (Inl (runtime_error ''Failed to evaluate token''),
      \<lparr>backend_state = 3, n_eval_calls = 3\<rparr>)"
  by (simp add: generate_def eval_call_def test_backend_def default_Config_def
      generate_loop.simps sample_token_def scripted_logits_def sample_token_loop.simps
      Let_def size_to_int_def hello_script_def fails_at_def)

lemma hello_request:
  "processRequest (test_backend 8 (scripted_logits hello_script) (\<lambda>s. False)) test_clock
     (test_processor 5) ''Hello'' ''req-1''
   = (Inr (map_of (success_object ''Hi!'' ''req-1'' 42 1700000000000000000)),
      (test_processor 5)\<lparr>ctx := Some \<lparr>backend_state = 3, n_eval_calls = 3\<rparr>,
         total_requests_processed := 1, total_tokens_processed := 8,
         average_processing_time := 42 / 100\<rparr>)"
proof -
  let ?be = "test_backend 8 (scripted_logits hello_script) (\<lambda>s. False)"
  have tok: "tokenize ?be (the (model (test_processor 5))) ''Hello'' = Inr [1, 3, 3, 3, 3, 3]"
    by (simp add: test_processor_sel hello_tokenize)
  have gen: "generate ?be (the (model (test_processor 5))) (config (test_processor 5))
               (the (ctx (test_processor 5))) [1, 3, 3, 3, 3, 3]
             = (Inr [5, 6], \<lparr>backend_state = 3, n_eval_calls = 3\<rparr>)"
    unfolding test_processor_sel by (rule hello_generate)
  have valid: "valid_utf8 ''Hi!''" "valid_utf8 ''req-1''" by (simp_all add: ascii_valid)
  show ?thesis
    using processRequest_generated [OF test_processor_loaded tok gen, of test_clock "''req-1''"]
    by (simp add: test_clock_def test_processor_sel hello_detokenize duration_cast_ms_def
        createSuccessResponse_valid valid)
qed

lemma hello_request_fails:
  "processRequest (test_backend 8 (scripted_logits hello_script) (fails_at 2)) test_clock
     (test_processor 5) ''Hello'' ''req-1''
   = (Inr (map_of (error_object ''Failed to evaluate token'' ''req-1'' 1700000000000000000)),
      (test_processor 5)\<lparr>ctx := Some \<lparr>backend_state = 3, n_eval_calls = 3\<rparr>\<rparr>)"
proof -
  let ?be = "test_backend 8 (scripted_logits hello_script) (fails_at 2)"
  have tok: "tokenize ?be (the (model (test_processor 5))) ''Hello'' = Inr [1, 3, 3, 3, 3, 3]"
    by (simp add: test_processor_sel hello_tokenize)
  have gen: "generate ?be (the (model (test_processor 5))) (config (test_processor 5))
               (the (ctx (test_processor 5))) [1, 3, 3, 3, 3, 3]
             = (Inl (runtime_error ''Failed to evaluate token''),
                \<lparr>backend_state = 3, n_eval_calls = 3\<rparr>)"
    unfolding test_processor_sel by (rule hello_generate_fails)
  have valid: "valid_utf8 ''Failed to evaluate token''" "valid_utf8 ''req-1''"
    by (simp_all add: ascii_valid)
  show ?thesis
    using processRequest_generate_throws [OF test_processor_loaded tok gen,
        of test_clock "''req-1''"]
    by (simp add: test_clock_def createErrorResponse_valid valid)
qed

text \<open>
  The same request on the backend whose tokens are not UTF-8: the statistics are
  updated, the success response cannot be serialised, and the caller gets an error
  response.
\<close>

lemma raw_bytes_request:
  "\<exists>msg. processRequest raw_bytes_backend test_clock (test_processor 5) ''Hello'' ''req-1''
     = (Inr (map_of (error_object msg ''req-1'' 1700000000000000001)),
        (test_processor 5)\<lparr>ctx := Some \<lparr>backend_state = 3, n_eval_calls = 3\<rparr>,
           total_requests_processed := 1, total_tokens_processed := 8,
           average_processing_time := 42 / 100\<rparr>)"
proof -
  have tok: "tokenize raw_bytes_backend (the (model (test_processor 5))) ''Hello''
               = Inr [1, 3, 3, 3, 3, 3]"
    by (simp add: test_processor_sel tokenize_def raw_bytes_backend_def test_backend_def
        vector_resize_def)
  have gen: "generate raw_bytes_backend (the (model (test_processor 5)))
               (config (test_processor 5)) (the (ctx (test_processor 5))) [1, 3, 3, 3, 3, 3]
             = (Inr [5, 6], \<lparr>backend_state = 3, n_eval_calls = 3\<rparr>)"
    unfolding test_processor_sel
    by (simp add: generate_def eval_call_def raw_bytes_backend_def test_backend_def
        default_Config_def generate_loop.simps sample_token_def scripted_logits_def
        sample_token_loop.simps Let_def size_to_int_def hello_script_def)
  have pieces: "detokenize raw_bytes_backend () [5, 6] = [CHR 0xFF, CHR 0xFF]"
    by (simp add: detokenize_def raw_bytes_backend_def test_backend_def)
  have clk: "system_now test_clock = 1700000000000000000"
    "system_now_handler test_clock = 1700000000000000001"
    "duration_cast_ms (end_time test_clock - start_time test_clock) = 42"
    by (simp_all add: test_clock_def duration_cast_ms_def)
  have "\<not> valid_utf8 [CHR 0xFF, CHR 0xFF]"
    by (simp add: valid_utf8_def utf8_fault_def utf8_lead_def)
  then have "isl (createSuccessResponse [CHR 0xFF, CHR 0xFF] ''req-1'' 42 1700000000000000000)"
    by (rule createSuccessResponse_invalid_text)
  then obtain e
    where e: "createSuccessResponse [CHR 0xFF, CHR 0xFF] ''req-1'' 42 1700000000000000000 = Inl e"
    by (cases "createSuccessResponse [CHR 0xFF, CHR 0xFF] ''req-1'' 42 1700000000000000000")
      simp_all
  then have "valid_utf8 (what e)" by (rule createSuccessResponse_throws)
  moreover have "valid_utf8 ''req-1''" by (simp add: ascii_valid)
  ultimately have "createErrorResponse (what e) ''req-1'' 1700000000000000001
      = Inr (map_of (error_object (what e) ''req-1'' 1700000000000000001))"
    by (rule createErrorResponse_valid)
  with e have "processRequest raw_bytes_backend test_clock (test_processor 5) ''Hello'' ''req-1''
     = (Inr (map_of (error_object (what e) ''req-1'' 1700000000000000001)),
        (test_processor 5)\<lparr>ctx := Some \<lparr>backend_state = 3, n_eval_calls = 3\<rparr>,
           total_requests_processed := 1, total_tokens_processed := 8,
           average_processing_time := 42 / 100\<rparr>)"
    using processRequest_generated [OF test_processor_loaded tok gen, of test_clock "''req-1''"]
    by (simp add: pieces clk test_processor_sel)
  then show ?thesis by blast
qed

lemma response_field_Inr [simp]: "response_field (Inr r) key = r key"
  by (simp add: response_field_def)

lemma response_field_Inl [simp]: "response_field (Inl e) key = None"
  by (simp add: response_field_def)

subsection \<open>The statistics\<close>

text \<open>
  C1 (as amended). A call of \<^verbatim>\<open>processRequest\<close> takes one of two courses. Either the
  model is loaded and \<^verbatim>\<open>tokenize\<close> and \<^verbatim>\<open>generate\<close> return: then
  \<^verbatim>\<open>total_requests_processed\<close> grows by exactly 1 and \<^verbatim>\<open>total_tokens_processed\<close> by the
  number of prompt tokens plus the number of generated tokens (64-bit additions, which
  wrap), whatever becomes of the response afterwards: the counters have grown also
  when \<^verbatim>\<open>createSuccessResponse\<close> then throws and the caller gets an error response or
  none. Or no model is loaded, or \<^verbatim>\<open>tokenize\<close> or \<^verbatim>\<open>generate\<close> throws: then no
  response with \<open>success = true\<close> is returned and both counters keep their values.
\<close>

theorem processRequest_counters:
  "(\<exists>tokens response_tokens c'.
       isModelLoaded p \<and>
       tokenize be (the (model p)) prompt = Inr tokens \<and>
       generate be (the (model p)) (config p) (the (ctx p)) tokens = (Inr response_tokens, c') \<and>
       total_requests_processed (snd (processRequest be clk p prompt request_id))
         = total_requests_processed p + 1 \<and>
       total_tokens_processed (snd (processRequest be clk p prompt request_id))
         = total_tokens_processed p + word_of_nat (length tokens + length response_tokens))
   \<or>
   ((model p = None \<or> ctx p = None \<or>
     (\<exists>e. tokenize be (the (model p)) prompt = Inl e) \<or>
     (\<exists>tokens e c'.
        tokenize be (the (model p)) prompt = Inr tokens \<and>
        generate be (the (model p)) (config p) (the (ctx p)) tokens = (Inl e, c'))) \<and>
    response_field (fst (processRequest be clk p prompt request_id)) ''success''
      \<noteq> Some (JBool True) \<and>
    total_requests_processed (snd (processRequest be clk p prompt request_id))
      = total_requests_processed p \<and>
    total_tokens_processed (snd (processRequest be clk p prompt request_id))
      = total_tokens_processed p)"
proof (cases rule: processRequest_cases [where p = p and be = be and prompt = prompt])
  case not_loaded
  then have path: "model p = None \<or> ctx p = None" by (simp add: isModelLoaded_def)
  have "response_field (fst (processRequest be clk p prompt request_id)) ''success''
          \<noteq> Some (JBool True)"
    using not_loaded
    by (cases "createErrorResponse ''Model not loaded'' request_id (system_now clk)")
      (auto simp: processRequest_not_loaded error_object_fields
        dest: createErrorResponse_response)
  moreover have "total_requests_processed (snd (processRequest be clk p prompt request_id))
           = total_requests_processed p"
    and "total_tokens_processed (snd (processRequest be clk p prompt request_id))
           = total_tokens_processed p"
    using not_loaded by (simp_all add: processRequest_not_loaded)
  ultimately show ?thesis using path by blast
next
  case (tokenize_throws e)
  have "response_field (fst (processRequest be clk p prompt request_id)) ''success''
          \<noteq> Some (JBool True)"
    using tokenize_throws
    by (cases "createErrorResponse (what e) request_id (system_now clk)")
      (auto simp: processRequest_tokenize_throws error_object_fields
        dest: createErrorResponse_response)
  moreover have "total_requests_processed (snd (processRequest be clk p prompt request_id))
           = total_requests_processed p"
    and "total_tokens_processed (snd (processRequest be clk p prompt request_id))
           = total_tokens_processed p"
    using tokenize_throws by (simp_all add: processRequest_tokenize_throws)
  ultimately show ?thesis using tokenize_throws(2) by blast
next
  case (generate_throws tokens e c')
  have "response_field (fst (processRequest be clk p prompt request_id)) ''success''
          \<noteq> Some (JBool True)"
    using generate_throws
    by (cases "createErrorResponse (what e) request_id (system_now clk)")
      (auto simp: processRequest_generate_throws error_object_fields
        dest: createErrorResponse_response)
  moreover have "total_requests_processed (snd (processRequest be clk p prompt request_id))
           = total_requests_processed p"
    and "total_tokens_processed (snd (processRequest be clk p prompt request_id))
           = total_tokens_processed p"
    using generate_throws by (simp_all add: processRequest_generate_throws)
  ultimately show ?thesis using generate_throws(2,3) by blast
next
  case (success tokens response_tokens c')
  then have "total_requests_processed (snd (processRequest be clk p prompt request_id))
           = total_requests_processed p + 1"
    and "total_tokens_processed (snd (processRequest be clk p prompt request_id))
           = total_tokens_processed p + word_of_nat (length tokens + length response_tokens)"
    by (simp_all add: processRequest_generated)
  with success show ?thesis by blast
qed

text \<open>
  The claim as stated fails on both failure paths it names. With no model loaded, and
  with an evaluation call that fails after two tokens, \<^verbatim>\<open>total_requests_processed\<close> is
  not incremented.
\<close>

theorem processRequest_counters_counterexample:
  "total_requests_processed
     (snd (processRequest (test_backend 8 (scripted_logits hello_script) (\<lambda>s. False)) test_clock
        new_GGUFProcessor ''Hello'' ''req-1''))
     \<noteq> total_requests_processed (new_GGUFProcessor :: (unit, nat) GGUFProcessor) + 1 \<and>
   total_requests_processed
     (snd (processRequest (test_backend 8 (scripted_logits hello_script) (fails_at 2)) test_clock
        (test_processor 5) ''Hello'' ''req-1''))
     \<noteq> total_requests_processed (test_processor 5) + 1"
proof -
  have "\<not> isModelLoaded (new_GGUFProcessor :: (unit, nat) GGUFProcessor)"
    by (simp add: isModelLoaded_def new_GGUFProcessor_def)
  then have "total_requests_processed
     (snd (processRequest (test_backend 8 (scripted_logits hello_script) (\<lambda>s. False)) test_clock
        new_GGUFProcessor ''Hello'' ''req-1'')) = 0"
    by (simp add: processRequest_not_loaded) (simp add: new_GGUFProcessor_def)
  moreover have "total_requests_processed (new_GGUFProcessor :: (unit, nat) GGUFProcessor) = 0"
    by (simp add: new_GGUFProcessor_def)
  ultimately show ?thesis
    by (simp add: hello_request_fails test_processor_sel)
qed

text \<open>
  A successful request: ''Hello'' is six prompt tokens, two tokens are generated, and
  the counters go from 0 to 1 and to 8.
\<close>

theorem processRequest_counters_witness:
  "response_field
     (fst (processRequest (test_backend 8 (scripted_logits hello_script) (\<lambda>s. False)) test_clock
          (test_processor 5) ''Hello'' ''req-1'')) ''success'' = Some (JBool True) \<and>
   total_requests_processed
     (snd (processRequest (test_backend 8 (scripted_logits hello_script) (\<lambda>s. False)) test_clock
        (test_processor 5) ''Hello'' ''req-1'')) = 1 \<and>
   total_tokens_processed
     (snd (processRequest (test_backend 8 (scripted_logits hello_script) (\<lambda>s. False)) test_clock
        (test_processor 5) ''Hello'' ''req-1'')) = 8"
proof -
  let ?be = "test_backend 8 (scripted_logits hello_script) (\<lambda>s. False)"
  let ?R = "processRequest ?be test_clock (test_processor 5) ''Hello'' ''req-1''"
  have ok: "response_field (fst ?R) ''success'' = Some (JBool True)"
    by (simp add: hello_request success_object_fields)
  have tok: "tokenize ?be (the (model (test_processor 5))) ''Hello'' = Inr [1, 3, 3, 3, 3, 3]"
    by (simp add: test_processor_sel hello_tokenize)
  have gen: "generate ?be (the (model (test_processor 5))) (config (test_processor 5))
               (the (ctx (test_processor 5))) [1, 3, 3, 3, 3, 3]
             = (Inr [5, 6], \<lparr>backend_state = 3, n_eval_calls = 3\<rparr>)"
    unfolding test_processor_sel by (rule hello_generate)
  from processRequest_counters [where be = ?be and p = "test_processor 5"
      and prompt = "''Hello''" and clk = test_clock and request_id = "''req-1''"] ok
  obtain tokens response_tokens c' where
    t: "tokenize ?be (the (model (test_processor 5))) ''Hello'' = Inr tokens" and
    g: "generate ?be (the (model (test_processor 5))) (config (test_processor 5))
       (the (ctx (test_processor 5))) tokens = (Inr response_tokens, c')" and
    n: "total_requests_processed (snd ?R) = total_requests_processed (test_processor 5) + 1" and
    k: "total_tokens_processed (snd ?R)
       = total_tokens_processed (test_processor 5)
           + word_of_nat (length tokens + length response_tokens)"
    by auto
  from t tok have tokens: "tokens = [1, 3, 3, 3, 3, 3]" by simp
  from g gen have response_tokens: "response_tokens = [5, 6]" unfolding tokens by simp
  from n k ok show ?thesis
    unfolding tokens response_tokens by (simp add: test_processor_sel)
qed

subsection \<open>A request without a model\<close>




subsection \<open>The request id of a response\<close>




subsection \<open>The fields of a response\<close>

text \<open>
  C7 (as amended). Every response that \<^verbatim>\<open>processRequest\<close> returns has a boolean
  \<open>success\<close>, a string \<open>request_id\<close> and an integer \<open>timestamp\<close> (the count of the
  system clock since its epoch). A success response has a string \<open>response\<close>, no
  \<open>error\<close> and an integer \<open>processing_time_ms\<close>; an error response has a string
  \<open>error\<close>, no \<open>response\<close> and no \<open>processing_time_ms\<close>.
\<close>

theorem response_envelope_fields:
  assumes "fst (processRequest be clk p prompt request_id) = Inr r"
  shows "is_boolean (r ''success'') \<and> is_string (r ''request_id'') \<and>
      is_number_integer (r ''timestamp'') \<and>
      (r ''success'' = Some (JBool True) \<and> is_string (r ''response'') \<and> r ''error'' = None \<and>
         is_number_integer (r ''processing_time_ms'')
       \<or> r ''success'' = Some (JBool False) \<and> is_string (r ''error'') \<and> r ''response'' = None \<and>
         r ''processing_time_ms'' = None)"
  using processRequest_response_forms [OF assms]
  by (auto simp: error_object_fields success_object_fields)

text \<open>
  The claim as stated fails on an error outcome: the response to a request made while
  no model is loaded has no \<open>processing_time_ms\<close>.
\<close>

theorem response_envelope_fields_counterexample:
  "\<not> isl (fst (processRequest no_model_backend test_clock new_GGUFProcessor ''Hello'' ''req-2'')) \<and>
   response_field
     (fst (processRequest no_model_backend test_clock new_GGUFProcessor ''Hello'' ''req-2''))
     ''processing_time_ms'' = None \<and>
   \<not> is_number_integer
       (response_field
          (fst (processRequest no_model_backend test_clock new_GGUFProcessor ''Hello'' ''req-2''))
          ''processing_time_ms'')"
proof -
  have "\<not> isModelLoaded (new_GGUFProcessor :: (unit, nat) GGUFProcessor)"
    by (simp add: isModelLoaded_def new_GGUFProcessor_def)
  moreover have "valid_utf8 ''Model not loaded''" "valid_utf8 ''req-2''"
    by (simp_all add: ascii_valid)
  ultimately show ?thesis
    by (simp add: processRequest_not_loaded createErrorResponse_valid error_object_fields)
qed

text \<open>The success response of the request ''Hello'', in full.\<close>

theorem response_envelope_fields_witness:
  "fst (processRequest (test_backend 8 (scripted_logits hello_script) (\<lambda>s. False)) test_clock
          (test_processor 5) ''Hello'' ''req-1'')
     = Inr (map_of (success_object ''Hi!'' ''req-1'' 42 1700000000000000000)) \<and>
   is_number_integer
     (map_of (success_object ''Hi!'' ''req-1'' 42 1700000000000000000) ''processing_time_ms'') \<and>
   is_string (map_of (success_object ''Hi!'' ''req-1'' 42 1700000000000000000) ''response'')"
proof -
  have h: "fst (processRequest (test_backend 8 (scripted_logits hello_script) (\<lambda>s. False))
             test_clock (test_processor 5) ''Hello'' ''req-1'')
           = Inr (map_of (success_object ''Hi!'' ''req-1'' 42 1700000000000000000))"
    by (simp add: hello_request)
  from response_envelope_fields [OF h] h show ?thesis
    by (simp add: success_object_fields)
qed

subsection \<open>A failing evaluation call\<close>

lemma generate_enters_loop:
  "eval_call be c tokens (size_to_int (length tokens)) 0 (n_threads cfg) = (0, c1) \<Longrightarrow>
   generate be m cfg c tokens = generate_loop be m cfg (length tokens) 0 [] c1"
  by (simp add: generate_def)

lemma generate_loop_step:
  "i < n_predict cfg \<Longrightarrow> sample_token be m c \<noteq> llama_token_eos be m \<Longrightarrow>
   eval_call be c [sample_token be m c] 1
     (size_to_int (n_prompt + length (response_tokens @ [sample_token be m c])))
     (n_threads cfg) = (0, c') \<Longrightarrow>
   generate_loop be m cfg n_prompt i response_tokens c
     = generate_loop be m cfg n_prompt (i + 1) (response_tokens @ [sample_token be m c]) c'"
  by (subst generate_loop.simps) (simp add: Let_def)





subsection \<open>The end-of-sequence token\<close>

lemma generate_eos_third:
  assumes np: "n_predict cfg = 5"
    and e0: "eval_call be c tokens (size_to_int (length tokens)) 0 (n_threads cfg) = (0, c1)"
    and s1: "sample_token be m c1 = t1" and n1: "t1 \<noteq> llama_token_eos be m"
    and e1: "eval_call be c1 [t1] 1 (size_to_int (length tokens + 1)) (n_threads cfg) = (0, c2)"
    and s2: "sample_token be m c2 = t2" and n2: "t2 \<noteq> llama_token_eos be m"
    and e2: "eval_call be c2 [t2] 1 (size_to_int (length tokens + 2)) (n_threads cfg) = (0, c3)"
    and s3: "sample_token be m c3 = llama_token_eos be m"
  shows "generate be m cfg c tokens = (Inr [t1, t2], c3)"
proof -
  have third: "generate_loop be m cfg (length tokens) 2 [t1, t2] c3 = (Inr [t1, t2], c3)"
    using np s3 by (subst generate_loop.simps) (simp add: Let_def)
  have second: "generate_loop be m cfg (length tokens) 1 [t1] c2 = (Inr [t1, t2], c3)"
    using np s2 n2 e2 third by (subst generate_loop.simps) (simp add: Let_def)
  have first: "generate_loop be m cfg (length tokens) 0 [] c1 = (Inr [t1, t2], c3)"
    using np s1 n1 e1 second by (subst generate_loop.simps) (simp add: Let_def)
  show ?thesis using e0 first by (simp add: generate_def)
qed

text \<open>
  C6 (as amended). Let \<^verbatim>\<open>n_predict\<close> be 5, let the evaluation calls succeed, and let
  the backend sample two tokens \<open>t1\<close>, \<open>t2\<close> other than the end-of-sequence token and
  then the end-of-sequence token. Then \<^verbatim>\<open>generate\<close> halts there: it returns exactly
  \<open>t1, t2\<close> after three evaluation calls (the budget allows six). When the request id
  and the text of the two tokens are valid UTF-8, the response has \<open>success = true\<close>
  and that text. It has no \<open>completion_tokens\<close> field: the count 2 goes, with the
  number of prompt tokens, into \<^verbatim>\<open>total_tokens_processed\<close>.
\<close>

theorem eos_as_third_token_halts:
  assumes "model p = Some m" and "ctx p = Some c" and "n_predict (config p) = 5"
    and "tokenize be m prompt = Inr tokens"
    and "eval_call be c tokens (size_to_int (length tokens)) 0 (n_threads (config p)) = (0, c1)"
    and "sample_token be m c1 = t1" and "t1 \<noteq> llama_token_eos be m"
    and "eval_call be c1 [t1] 1 (size_to_int (length tokens + 1)) (n_threads (config p)) = (0, c2)"
    and "sample_token be m c2 = t2" and "t2 \<noteq> llama_token_eos be m"
    and "eval_call be c2 [t2] 1 (size_to_int (length tokens + 2)) (n_threads (config p)) = (0, c3)"
    and "sample_token be m c3 = llama_token_eos be m"
    and "valid_utf8 request_id" and "valid_utf8 (detokenize be m [t1, t2])"
  shows "generate be m (config p) c tokens = (Inr [t1, t2], c3) \<and>
         n_eval_calls c3 = n_eval_calls c + 3 \<and>
         \<not> isl (fst (processRequest be clk p prompt request_id)) \<and>
         response_field (fst (processRequest be clk p prompt request_id)) ''success''
           = Some (JBool True) \<and>
         response_field (fst (processRequest be clk p prompt request_id)) ''response''
           = Some (JString (detokenize be m [t1, t2])) \<and>
         response_field (fst (processRequest be clk p prompt request_id)) ''completion_tokens''
           = None \<and>
         total_tokens_processed (snd (processRequest be clk p prompt request_id))
           = total_tokens_processed p + word_of_nat (length tokens + 2)"
proof -
  have gen: "generate be m (config p) c tokens = (Inr [t1, t2], c3)"
    using assms(3,5-12) by (rule generate_eos_third)
  have loaded: "isModelLoaded p" using assms(1,2) by (simp add: isModelLoaded_def)
  have tok: "tokenize be (the (model p)) prompt = Inr tokens" using assms(1,4) by simp
  have gen': "generate be (the (model p)) (config p) (the (ctx p)) tokens = (Inr [t1, t2], c3)"
    using assms(1,2) gen by simp
  have calls: "n_eval_calls c3 = n_eval_calls c + 3"
    using eval_call_counts [of be c tokens "size_to_int (length tokens)" 0 "n_threads (config p)"]
      eval_call_counts [of be c1 "[t1]" 1 "size_to_int (length tokens + 1)" "n_threads (config p)"]
      eval_call_counts [of be c2 "[t2]" 1 "size_to_int (length tokens + 2)" "n_threads (config p)"]
      assms(5,8,11)
    by simp
  show ?thesis
    using gen calls assms(1,13,14)
    by (simp add: processRequest_generated [OF loaded tok gen'] createSuccessResponse_valid
        success_object_fields)
qed

text \<open>
  The claim as stated fails on the scenario itself: the response to ''Hello'', for which
  the end-of-sequence token is the third token sampled, reports no completion token
  count. And when the two tokens are rendered as bytes that are not UTF-8, the response
  of the same scenario has \<open>success = false\<close>.
\<close>

theorem eos_as_third_token_halts_counterexample:
  "response_field
     (fst (processRequest (test_backend 8 (scripted_logits hello_script) (\<lambda>s. False)) test_clock
          (test_processor 5) ''Hello'' ''req-1'')) ''success'' = Some (JBool True) \<and>
   response_field
     (fst (processRequest (test_backend 8 (scripted_logits hello_script) (\<lambda>s. False)) test_clock
          (test_processor 5) ''Hello'' ''req-1'')) ''completion_tokens'' = None \<and>
   response_field
     (fst (processRequest (test_backend 8 (scripted_logits hello_script) (\<lambda>s. False)) test_clock
          (test_processor 5) ''Hello'' ''req-1'')) ''completion_tokens'' \<noteq> Some (JInt 2) \<and>
   response_field
     (fst (processRequest raw_bytes_backend test_clock (test_processor 5) ''Hello'' ''req-1''))
     ''success'' = Some (JBool False)"
  using raw_bytes_request
  by (auto simp: hello_request success_object_fields error_object_fields)

text \<open>
  The scenario on the scripted backend: the prompt ''Hello'', the tokens 5 and 6, then
  the end-of-sequence token 2.
\<close>

theorem eos_as_third_token_halts_witness:
  "generate (test_backend 8 (scripted_logits hello_script) (\<lambda>s. False)) ()
      (config (test_processor 5)) \<lparr>backend_state = 0, n_eval_calls = 0\<rparr> [1, 3, 3, 3, 3, 3]
     = (Inr [5, 6], \<lparr>backend_state = 3, n_eval_calls = 3\<rparr>) \<and>
   valid_utf8 ''req-1'' \<and>
   valid_utf8 (detokenize (test_backend 8 (scripted_logits hello_script) (\<lambda>s. False)) () [5, 6]) \<and>
   response_field
     (fst (processRequest (test_backend 8 (scripted_logits hello_script) (\<lambda>s. False)) test_clock
          (test_processor 5) ''Hello'' ''req-1'')) ''success'' = Some (JBool True) \<and>
   response_field
     (fst (processRequest (test_backend 8 (scripted_logits hello_script) (\<lambda>s. False)) test_clock
          (test_processor 5) ''Hello'' ''req-1'')) ''response'' = Some (JString ''Hi!'') \<and>
   total_tokens_processed
     (snd (processRequest (test_backend 8 (scripted_logits hello_script) (\<lambda>s. False)) test_clock
          (test_processor 5) ''Hello'' ''req-1'')) = 8"
proof -
  let ?be = "test_backend 8 (scripted_logits hello_script) (\<lambda>s. False)"
  let ?p = "test_processor 5"
  have 1: "model ?p = Some ()" and 2: "ctx ?p = Some \<lparr>backend_state = 0, n_eval_calls = 0\<rparr>"
    and 3: "n_predict (config ?p) = 5"
    by (simp_all add: test_processor_def new_GGUFProcessor_def)
  have 4: "tokenize ?be () ''Hello'' = Inr [1, 3, 3, 3, 3, 3]" by (rule hello_tokenize)
  have 5: "eval_call ?be \<lparr>backend_state = 0, n_eval_calls = 0\<rparr> [1, 3, 3, 3, 3, 3]
             (size_to_int (length [1, 3, 3, 3, 3, 3 :: int])) 0 (n_threads (config ?p))
           = (0, \<lparr>backend_state = Suc 0, n_eval_calls = Suc 0\<rparr>)"
    by (rule test_eval)
  have 6: "sample_token ?be () \<lparr>backend_state = Suc 0, n_eval_calls = Suc 0\<rparr> = 5"
    using hello_sample(1) [of "\<lambda>s. False" "Suc 0"] by simp
  have 7: "(5 :: int) \<noteq> llama_token_eos ?be ()" by (simp add: test_backend_def)
  have 8: "eval_call ?be \<lparr>backend_state = Suc 0, n_eval_calls = Suc 0\<rparr> [5] 1
             (size_to_int (length [1, 3, 3, 3, 3, 3 :: int] + 1)) (n_threads (config ?p))
           = (0, \<lparr>backend_state = Suc (Suc 0), n_eval_calls = Suc (Suc 0)\<rparr>)"
    by (rule test_eval)
  have 9: "sample_token ?be () \<lparr>backend_state = Suc (Suc 0), n_eval_calls = Suc (Suc 0)\<rparr> = 6"
    using hello_sample(2) [of "\<lambda>s. False" "Suc (Suc 0)"] by (simp add: numeral_2_eq_2)
  have 10: "(6 :: int) \<noteq> llama_token_eos ?be ()" by (simp add: test_backend_def)
  have 11: "eval_call ?be \<lparr>backend_state = Suc (Suc 0), n_eval_calls = Suc (Suc 0)\<rparr> [6] 1
             (size_to_int (length [1, 3, 3, 3, 3, 3 :: int] + 2)) (n_threads (config ?p))
           = (0, \<lparr>backend_state = Suc (Suc (Suc 0)), n_eval_calls = Suc (Suc (Suc 0))\<rparr>)"
    by (rule test_eval)
  have 12: "sample_token ?be ()
              \<lparr>backend_state = Suc (Suc (Suc 0)), n_eval_calls = Suc (Suc (Suc 0))\<rparr>
              = llama_token_eos ?be ()"
    using hello_sample(3) [of "\<lambda>s. False" "Suc (Suc (Suc 0))"]
    by (simp add: numeral_3_eq_3 test_backend_def)
  have 13: "valid_utf8 ''req-1''" by (simp add: ascii_valid)
  have 14: "valid_utf8 (detokenize ?be () [5, 6])" by (simp add: hello_detokenize ascii_valid)
  from eos_as_third_token_halts [OF 1 2 3 4 5 6 7 8 9 10 11 12 13 14,
      where clk = test_clock]
  show ?thesis using 13 14
    by (simp add: numeral_3_eq_3 hello_detokenize test_processor_sel)
qed

subsection \<open>The interactive loop\<close>












end
